theory Spec2Isabelle
  imports Main "HOL-Library.Sublist"
begin

section \<open>Python strings and lists\<close>

text \<open>
  A Python \<open>str\<close> is modelled as a HOL \<open>string\<close>; a character stands for a code point
  below 256. The functions of this section are the \<open>str\<close> and \<open>list\<close> operations that
  \<open>main.py\<close> calls, each with the behaviour it has at the call sites of the file.
\<close>

text \<open>
  The exceptions the file can raise. None of them is caught on the way out
  (\<open>_parse_books\<close> prints a line and re-raises). \<open>AttributeError t a\<close> is Python's
  "\<open>t\<close> object has no attribute \<open>a\<close>", \<open>TypeError t\<close> is "\<open>t\<close> object is not
  callable", \<open>KeyError k\<close> carries the missing key, \<open>IndexError\<close> is "list index out
  of range".
\<close>

datatype error =
    AttributeError string string
  | TypeError string
  | KeyError string
  | IndexError
  | StopIteration

text \<open>\<open>s.split(sep)\<close> for a separator of one character: the result is never empty.\<close>

fun str_split :: "char \<Rightarrow> string \<Rightarrow> string list" where
  "str_split sep [] = [[]]"
| "str_split sep (c # cs) =
     (if c = sep then [] # str_split sep cs
      else (case str_split sep cs of
              [] \<Rightarrow> [[c]]
            | w # ws \<Rightarrow> (c # w) # ws))"

text \<open>\<open>''''.join(xs)\<close> is \<^const>\<open>concat\<close>. \<open>sub in s\<close> on strings:\<close>

fun str_in :: "string \<Rightarrow> string \<Rightarrow> bool" where
  "str_in sub [] = (sub = [])"
| "str_in sub (c # cs) = (prefix sub (c # cs) \<or> str_in sub cs)"

text \<open>
  \<open>s.replace(old, new)\<close> for a non-empty \<open>old\<close> (both call sites pass a literal):
  every occurrence, scanning from the left, occurrences not overlapping.
\<close>

fun str_replace :: "string \<Rightarrow> string \<Rightarrow> string \<Rightarrow> string" where
  "str_replace old new [] = []"
| "str_replace old new (c # cs) =
     (if old \<noteq> [] \<and> prefix old (c # cs)
      then new @ str_replace old new (drop (length old - 1) cs)
      else c # str_replace old new cs)"

text \<open>\<open>c.isspace()\<close> on the code points below 256, and \<open>s.strip()\<close>.\<close>

definition isspace :: "char \<Rightarrow> bool" where
  "isspace c \<longleftrightarrow> c \<in> set [CHR 0x09, CHR 0x0A, CHR 0x0B, CHR 0x0C, CHR 0x0D,
                          CHR 0x1C, CHR 0x1D, CHR 0x1E, CHR 0x1F, CHR 0x20,
                          CHR 0x85, CHR 0xA0]"

definition str_strip :: "string \<Rightarrow> string" where
  "str_strip s = rev (dropWhile isspace (rev (dropWhile isspace s)))"

text \<open>\<open>xs[i]\<close> for a literal index \<open>i \<ge> 0\<close>: out of range raises \<open>IndexError\<close>.\<close>

definition index :: "'a list \<Rightarrow> nat \<Rightarrow> error + 'a" where
  "index xs i = (if i < length xs then Inr (xs ! i) else Inl IndexError)"

section \<open>The identifier of a highlight\<close>

text \<open>
  \<open>main.py\<close> imports \<open>urllib.parse\<close> (line 27; the import of the older \<open>urlparse\<close>
  module is commented out), so it is a Python 3 file, and \<open>urllib.parse\<close> is a module.
  \<open>_create_enid\<close> calls it: \<open>urllib.parse(huri)\<close>. A module is not callable; the call
  raises \<open>TypeError\<close> for every argument. The code goes on to read the attribute
  \<open>query\<close> of the value of the call, so that value is given a type with that field.
\<close>

record parse_result =
  query :: string

definition urllib_parse :: "string \<Rightarrow> error + parse_result" where
  "urllib_parse huri = Inl (TypeError ''module'')"

text \<open>\<open>q.split('&')[k].split('=')[1]\<close>, the rest of lines 74 and 75.\<close>

definition query_field :: "string \<Rightarrow> nat \<Rightarrow> error + string" where
  "query_field q k =
     (case index (str_split CHR ''&'' q) k of
        Inl e \<Rightarrow> Inl e
      | Inr f \<Rightarrow> index (str_split CHR ''='' f) 1)"

text \<open>
  \<open>_create_enid(huri)\<close> (HOL names do not start with an underscore): line 74 for
  \<open>asin\<close>, line 75 for \<open>loc\<close>, each with its own call of \<open>urllib.parse\<close>, then the
  concatenation.
\<close>

definition create_enid :: "string \<Rightarrow> error + string" where
  "create_enid huri =
     (case urllib_parse huri of
        Inl e \<Rightarrow> Inl e
      | Inr r \<Rightarrow>
     (case query_field (query r) 1 of
        Inl e \<Rightarrow> Inl e
      | Inr asin \<Rightarrow>
     (case urllib_parse huri of
        Inl e \<Rightarrow> Inl e
      | Inr r' \<Rightarrow>
     (case query_field (query r') 2 of
        Inl e \<Rightarrow> Inl e
      | Inr loc \<Rightarrow> Inr (asin @ loc)))))"

section \<open>The markup normalizer\<close>

definition header_marker :: string where
  \<open>header_marker = ''class="bookMain yourHighlightsHeader"''\<close>

definition all_hl_marker :: string where
  \<open>all_hl_marker = ''<div id="allHighlightedBooks">''\<close>

text \<open>The body of the first loop of \<open>_parse_books\<close>, for one line.\<close>

definition rewrite_header :: "string \<Rightarrow> string" where
  \<open>rewrite_header line =
     (if str_in header_marker line
      then ''</div>'' @ line @ ''<div class="highlightColumn">''
      else line)\<close>

text \<open>
  \<open>re.search('.*<div id="allHighlightedBooks">.*', line)\<close>: the lines come from
  \<open>split('\n')\<close> and hold no line feed, so \<open>.*\<close> matches any text around the marker.
\<close>

definition re_search_all_hl :: "string \<Rightarrow> bool" where
  "re_search_all_hl line = str_in all_hl_marker line"

text \<open>
  The generator expression \<open>(i for i, line in enumerate(markup) if re.search(...))\<close>
  is represented by the values it would yield, in order. Building it evaluates none of
  them.
\<close>

definition all_hl_indices :: "string list \<Rightarrow> nat list" where
  "all_hl_indices markup = filter (\<lambda>i. re_search_all_hl (markup ! i)) [0 ..< length markup]"

text \<open>
  \<open>(...).next()\<close> on that generator. A Python 3 generator has the method \<open>__next__\<close>
  and no attribute \<open>next\<close>: looking \<open>next\<close> up raises \<open>AttributeError\<close>, whatever the
  generator would yield, and before anything is called.
\<close>

definition generator_next :: "nat list \<Rightarrow> error + nat" where
  "generator_next values = Inl (AttributeError ''generator'' ''next'')"

text \<open>
  Lines 106 to 110, for the index \<open>all_hl_div\<close> (an index of \<open>markup\<close>, as the generator
  yields no other): \<open>replace\<close> on that line, then the lines joined.
\<close>

definition strip_and_join :: "string list \<Rightarrow> nat \<Rightarrow> string" where
  "strip_and_join markup all_hl_div =
     concat (markup[all_hl_div := str_replace ''</div>'' [] (markup ! all_hl_div)])"

text \<open>
  \<open>_parse_books(html)\<close>. The \<open>except StopIteration\<close> clause prints a line and raises
  the exception again; any other exception passes through it.
\<close>

definition parse_books :: "string \<Rightarrow> error + string" where
  "parse_books html =
     (let markup = map rewrite_header (str_split CHR 0x0A html) in
      case generator_next (all_hl_indices markup) of
        Inl e \<Rightarrow> (case e of StopIteration \<Rightarrow> Inl StopIteration | _ \<Rightarrow> Inl e)
      | Inr all_hl_div \<Rightarrow> Inr (strip_and_join markup all_hl_div))"

section \<open>The parsed document\<close>

text \<open>
  What \<open>BeautifulSoup(html, 'html.parser')\<close> returns: a tree of tags (name, attribute
  dictionary, contents) and strings. The document itself is a tag named \<open>[document]\<close>.
  Parsing is the library's work; the extractor is modelled on the tree, and the pipeline
  takes the parser as an argument.
\<close>

datatype element =
    Tag string "(string \<times> string) list" "element list"
  | NavigableString string

text \<open>
  Every element below \<open>e\<close> in document order, each with its \<open>nextSibling\<close> (the next
  entry of its parent's contents, \<open>None\<close> for the last one).
\<close>

fun descendants :: "element \<Rightarrow> (element \<times> element option) list"
  and descendants_list :: "element list \<Rightarrow> (element \<times> element option) list" where
  "descendants (NavigableString s) = []"
| "descendants (Tag n attrs cs) = descendants_list cs"
| "descendants_list [] = []"
| "descendants_list (c # cs) =
     (c, case cs of [] \<Rightarrow> None | d # _ \<Rightarrow> Some d) # descendants c @ descendants_list cs"

text \<open>
  The \<open>class\<close> attribute is a list of the non-whitespace runs of its text. A class
  filter that is a string matches when it equals one of them, or all of them joined by
  single spaces.
\<close>

fun nonwhitespace :: "string \<Rightarrow> string list" where
  "nonwhitespace [] = []"
| "nonwhitespace (c # cs) =
     (if isspace c then nonwhitespace cs
      else (case cs of
              [] \<Rightarrow> [[c]]
            | d # _ \<Rightarrow>
                if isspace d then [c] # nonwhitespace cs
                else (case nonwhitespace cs of
                        [] \<Rightarrow> [[c]]
                      | w # ws \<Rightarrow> (c # w) # ws)))"

fun join_space :: "string list \<Rightarrow> string" where
  "join_space [] = []"
| "join_space [w] = w"
| "join_space (w # ws) = w @ CHR '' '' # join_space ws"

definition has_class :: "string \<Rightarrow> (string \<times> string) list \<Rightarrow> bool" where
  "has_class cls attrs =
     (case map_of attrs ''class'' of
        None \<Rightarrow> False
      | Some v \<Rightarrow> cls \<in> set (nonwhitespace v) \<or> join_space (nonwhitespace v) = cls)"

definition matches :: "string \<Rightarrow> string \<Rightarrow> element \<Rightarrow> bool" where
  "matches name cls e =
     (case e of
        Tag n attrs cs \<Rightarrow> n = name \<and> has_class cls attrs
      | NavigableString s \<Rightarrow> False)"

text \<open>\<open>e.find_all(name, cls)\<close> and \<open>e.find(name, cls)\<close>.\<close>

definition find_all :: "element \<Rightarrow> string \<Rightarrow> string \<Rightarrow> (element \<times> element option) list" where
  "find_all e name cls = filter (\<lambda>(d, sib). matches name cls d) (descendants e)"

definition find_tag :: "element \<Rightarrow> string \<Rightarrow> string \<Rightarrow> (element \<times> element option) option" where
  "find_tag e name cls = (case find_all e name cls of [] \<Rightarrow> None | r # _ \<Rightarrow> Some r)"

text \<open>
  \<open>e.string\<close>: a string is its own \<open>.string\<close>; a tag with exactly one child has the
  \<open>.string\<close> of that child; any other tag has \<open>None\<close>.
\<close>

fun tag_string :: "element \<Rightarrow> string option" where
  "tag_string (NavigableString s) = Some s"
| "tag_string (Tag n attrs cs) = (case cs of [c] \<Rightarrow> tag_string c | _ \<Rightarrow> None)"

section \<open>The highlight extractor\<close>

text \<open>A highlight dictionary; \<open>text\<close> and \<open>id\<close> are the fields \<open>text_val\<close> and \<open>id_val\<close>.\<close>

record hdict =
  book_title :: string
  book_author :: string
  text_val :: "string option"
  link :: string
  id_val :: string

text \<open>\<open>book.find('span', 'title').string.strip()\<close>\<close>

definition title_of :: "element \<Rightarrow> error + string" where
  "title_of book =
     (case find_tag book ''span'' ''title'' of
        None \<Rightarrow> Inl (AttributeError ''NoneType'' ''string'')
      | Some (el, sib) \<Rightarrow>
          (case tag_string el of
             None \<Rightarrow> Inl (AttributeError ''NoneType'' ''strip'')
           | Some s \<Rightarrow> Inr (str_strip s)))"

text \<open>\<open>book.find('span', 'author').string.replace('by', '').strip()\<close>\<close>

definition author_text :: "string \<Rightarrow> string" where
  "author_text s = str_strip (str_replace ''by'' [] s)"

definition author_of :: "element \<Rightarrow> error + string" where
  "author_of book =
     (case find_tag book ''span'' ''author'' of
        None \<Rightarrow> Inl (AttributeError ''NoneType'' ''string'')
      | Some (el, sib) \<Rightarrow>
          (case tag_string el of
             None \<Rightarrow> Inl (AttributeError ''NoneType'' ''replace'')
           | Some s \<Rightarrow> Inr (author_text s)))"

text \<open>\<open>highlight.nextSibling.attrs['href']\<close>, given the \<open>nextSibling\<close>.\<close>

definition href_of :: "element option \<Rightarrow> error + string" where
  "href_of sib =
     (case sib of
        None \<Rightarrow> Inl (AttributeError ''NoneType'' ''attrs'')
      | Some (NavigableString s) \<Rightarrow> Inl (AttributeError ''NavigableString'' ''attrs'')
      | Some (Tag n attrs cs) \<Rightarrow>
          (case map_of attrs ''href'' of
             None \<Rightarrow> Inl (KeyError ''href'')
           | Some v \<Rightarrow> Inr v))"

text \<open>
  The \<open>dict(...)\<close> built for one highlight of a book. Its arguments are evaluated in the
  order written: \<open>highlight.string\<close> (which cannot fail), the \<open>href\<close> of the next
  sibling for \<open>link\<close>, the same \<open>href\<close> again for \<open>_create_enid\<close>.
\<close>

definition highlight_dict ::
  "string \<Rightarrow> string \<Rightarrow> element \<times> element option \<Rightarrow> error + hdict" where
  "highlight_dict title author h =
     (case h of (highlight, sib) \<Rightarrow>
     (case href_of sib of
        Inl e \<Rightarrow> Inl e
      | Inr l \<Rightarrow>
     (case href_of sib of
        Inl e \<Rightarrow> Inl e
      | Inr l' \<Rightarrow>
     (case create_enid l' of
        Inl e \<Rightarrow> Inl e
      | Inr i \<Rightarrow>
          Inr \<lparr>book_title = title, book_author = author,
               text_val = tag_string highlight, link = l, id_val = i\<rparr>))))"

text \<open>The inner loop: one dictionary appended to \<open>hdicts\<close> for each highlight.\<close>

fun highlights_loop ::
  "string \<Rightarrow> string \<Rightarrow> (element \<times> element option) list \<Rightarrow> hdict list \<Rightarrow> error + hdict list" where
  "highlights_loop title author [] hdicts = Inr hdicts"
| "highlights_loop title author (h # rest) hdicts =
     (case highlight_dict title author h of
        Inl e \<Rightarrow> Inl e
      | Inr d \<Rightarrow> highlights_loop title author rest (hdicts @ [d]))"

text \<open>The body of the outer loop for one book, and the outer loop.\<close>

definition book_step :: "element \<Rightarrow> hdict list \<Rightarrow> error + hdict list" where
  "book_step book hdicts =
     (case title_of book of
        Inl e \<Rightarrow> Inl e
      | Inr title \<Rightarrow>
     (case author_of book of
        Inl e \<Rightarrow> Inl e
      | Inr author \<Rightarrow>
          highlights_loop title author (find_all book ''span'' ''highlight'') hdicts))"

fun books_loop :: "(element \<times> element option) list \<Rightarrow> hdict list \<Rightarrow> error + hdict list" where
  "books_loop [] hdicts = Inr hdicts"
| "books_loop ((book, sib) # rest) hdicts =
     (case book_step book hdicts of
        Inl e \<Rightarrow> Inl e
      | Inr hdicts' \<Rightarrow> books_loop rest hdicts')"

text \<open>\<open>_extract_highlights\<close> after the parse, and with the parser \<open>bs\<close>.\<close>

definition extract_soup :: "element \<Rightarrow> error + hdict list" where
  "extract_soup soup = books_loop (find_all soup ''div'' ''bookMain'') []"

definition extract_highlights :: "(string \<Rightarrow> element) \<Rightarrow> string \<Rightarrow> error + hdict list" where
  "extract_highlights bs html = extract_soup (bs html)"

text \<open>\<open>_get_all_highlights\<close>, on the text read from the file.\<close>

definition get_all_highlights :: "(string \<Rightarrow> element) \<Rightarrow> string \<Rightarrow> error + hdict list" where
  "get_all_highlights bs html_doc =
     (case parse_books html_doc of
        Inl e \<Rightarrow> Inl e
      | Inr parsed \<Rightarrow> extract_highlights bs parsed)"

section \<open>Example inputs\<close>

text \<open>
  Parsed documents of the shape of the export, to run the extractor on; each is the tree
  of the markup that lists its tags in order with no white space between them.
\<close>

definition document :: "element list \<Rightarrow> element" where
  "document cs = Tag ''[document]'' [] cs"

definition book_div :: "element list \<Rightarrow> element" where
  "book_div cs = Tag ''div'' [(''class'', ''bookMain yourHighlightsHeader'')] cs"

definition span :: "string \<Rightarrow> element list \<Rightarrow> element" where
  "span cls cs = Tag ''span'' [(''class'', cls)] cs"

definition read_more :: "string \<Rightarrow> element" where
  "read_more huri =
     Tag ''a'' [(''class'', ''readMore''), (''href'', huri)] [NavigableString ''Read more'']"

definition dune :: element where
  "dune = book_div
     [span ''title'' [NavigableString ''Dune ''],
      span ''author'' [NavigableString ''by Frank Herbert''],
      span ''highlight'' [NavigableString ''h1''],
      read_more ''kindle://book?action=open&asin=B1&location=10'',
      span ''highlight'' [NavigableString ''h2''],
      read_more ''kindle://book?action=open&asin=B1&location=20'']"

definition emma :: element where
  "emma = book_div
     [span ''title'' [NavigableString ''Emma''],
      span ''author'' [NavigableString ''by Jane Austen''],
      span ''highlight'' [NavigableString ''h3''],
      read_more ''kindle://book?action=open&asin=B2&location=30'']"

definition two_books :: element where
  "two_books = document [Tag ''div'' [(''id'', ''allHighlightedBooks'')] [dune, emma]]"

text \<open>A book with no highlight yet, and a book with no title element.\<close>

definition ulysses :: element where
  "ulysses = book_div
     [span ''title'' [NavigableString ''Ulysses''],
      span ''author'' [NavigableString ''by James Joyce'']]"

definition untitled :: element where
  "untitled = book_div
     [span ''author'' [NavigableString ''by Jane Austen''],
      span ''highlight'' [NavigableString ''h3''],
      read_more ''kindle://book?action=open&asin=B2&location=30'']"

definition untitled_first :: element where
  "untitled_first = document [untitled, dune]"

definition untitled_second :: element where
  "untitled_second = document [ulysses, untitled]"

definition untitled_after_dune :: element where
  "untitled_after_dune = document [dune, untitled]"

text \<open>A book whose highlights have no text node, or one blank only.\<close>

definition blank_highlights :: element where
  "blank_highlights = document [book_div
     [span ''title'' [NavigableString ''Emma''],
      span ''author'' [NavigableString ''by Jane Austen''],
      span ''highlight'' [],
      read_more ''kindle://book?action=open&asin=B2&location=30'',
      span ''highlight'' [NavigableString '' ''],
      read_more ''kindle://book?action=open&asin=B2&location=40'']]"

text \<open>
  Texts for the normalizer: a first line of an export, which holds the top-level marker,
  the header of the first book and that header's own closing tag; and a document as the
  normalizer is meant to leave it, one line with each book's highlights inside the book.
\<close>

definition first_line :: string where
  \<open>first_line =
     ''<div id="allHighlightedBooks"><div class="bookMain yourHighlightsHeader">'' @
     ''<span class="title">Dune</span></div>''\<close>

definition normalized :: string where
  \<open>normalized =
     ''<div id="allHighlightedBooks">'' @
     ''<div class="bookMain yourHighlightsHeader">'' @
     ''<div class="highlightColumn"><span class="title">Dune</span>'' @
     ''<span class="author">by Frank Herbert</span></div>'' @
     ''<div class="highlightRow"><span class="highlight">h1</span>'' @
     ''<a href="kindle://book?action=open&asin=B1&location=10">more</a></div></div>'' @
     ''<div class="bookMain yourHighlightsHeader">'' @
     ''<div class="highlightColumn"><span class="title">Emma</span>'' @
     ''<span class="author">by Jane Austen</span></div>'' @
     ''<div class="highlightRow"><span class="highlight">h3</span>'' @
     ''<a href="kindle://book?action=open&asin=B2&location=30">more</a></div></div></div>''\<close>

section \<open>What the two calls do\<close>


lemma parse_books_raises: "parse_books html = Inl (AttributeError ''generator'' ''next'')"
  by (simp add: parse_books_def generator_next_def Let_def)

lemma get_all_highlights_raises:
  "get_all_highlights bs html_doc = Inl (AttributeError ''generator'' ''next'')"
  by (simp add: get_all_highlights_def parse_books_raises)

section \<open>The identifier of a highlight\<close>

text \<open>
  Claim C1. The docstring of \<open>_create_enid\<close> gives the link
  \<open>kindle://book?action=open&asin=B004TP29C4&location=4063\<close> and the identifier
  \<open>B004TP29C44063\<close> for it. The function returns no identifier for this link: it
  raises \<open>TypeError\<close>.
\<close>

theorem create_enid_docstring_example:
  "create_enid ''kindle://book?action=open&asin=B004TP29C4&location=4063''
     = Inl (TypeError ''module'')"
  by (simp add: create_enid_def urllib_parse_def)

text \<open>
  The text after the call takes the fields of the query by their position: on a query
  with \<open>location\<close> before \<open>asin\<close>, line 74 would take the location for the \<open>asin\<close>.
\<close>

lemma query_field_by_position:
  "query_field ''action=open&location=4063&asin=B004TP29C4'' 1 = Inr ''4063''"
  by (simp add: query_field_def index_def)

text \<open>
  Claim C4. A link that has both an \<open>asin\<close> and a \<open>location\<close> parameter: the
  derivation does not succeed. It fails as it does for every link, with \<open>TypeError\<close>.
\<close>

theorem create_enid_both_parameters:
  "create_enid ''kindle://book?asin=B004TP29C4&location=4063'' = Inl (TypeError ''module'')"
  by (simp add: create_enid_def urllib_parse_def)

section \<open>The normalizer\<close>

text \<open>
  Claim C2. On a text with no line that contains the marker, \<open>_parse_books\<close> does stop
  the run before any extraction, but not with the \<open>StopIteration\<close> that its \<open>except\<close>
  clause is written for: it raises the \<open>AttributeError\<close> of \<open>.next()\<close>, the same as on
  a text that does contain the marker.
\<close>

theorem no_marker_attribute_error:
  \<open>parse_books ''<html>'' = Inl (AttributeError ''generator'' ''next'')
   \<and> get_all_highlights bs ''<html>'' = Inl (AttributeError ''generator'' ''next'')
   \<and> parse_books ''<div id="allHighlightedBooks">'' = Inl (AttributeError ''generator'' ''next'')
   \<and> all_hl_indices (map rewrite_header (str_split CHR 0x0A ''<html>'')) = []
   \<and> all_hl_indices (map rewrite_header (str_split CHR 0x0A ''<div id="allHighlightedBooks">''))
       = [0]\<close>
  by (simp add: parse_books_raises get_all_highlights_raises all_hl_indices_def
        rewrite_header_def header_marker_def re_search_all_hl_def all_hl_marker_def)

text \<open>
  Claim C5. The first line of an export, with the marker, the header of the first book
  and the closing tag of that header. \<open>_parse_books\<close> raises before it edits the
  line, so no \<open></div>\<close> is removed and no text is returned. Line 106, which the comment
  above it describes as removing the very first \<open></div>\<close>, would remove both the one
  that the header rewrite puts in front of the line and the closing tag of the header.
\<close>

theorem marker_line_not_edited:
  \<open>parse_books first_line = Inl (AttributeError ''generator'' ''next'')
   \<and> map rewrite_header (str_split CHR 0x0A first_line) =
       [''</div><div id="allHighlightedBooks"><div class="bookMain yourHighlightsHeader">'' @
        ''<span class="title">Dune</span></div><div class="highlightColumn">'']
   \<and> strip_and_join (map rewrite_header (str_split CHR 0x0A first_line)) 0 =
       ''<div id="allHighlightedBooks"><div class="bookMain yourHighlightsHeader">'' @
       ''<span class="title">Dune</span><div class="highlightColumn">''\<close>
  by (simp add: parse_books_raises first_line_def strip_and_join_def rewrite_header_def
        header_marker_def)

text \<open>
  Claim C6. A document that is already normalized, given to the normalizer again: no
  output comes back in which the highlights could still be with their books, since
  \<open>_parse_books\<close> raises on it as on every text.
\<close>

theorem normalized_not_returned:
  "parse_books normalized = Inl (AttributeError ''generator'' ''next'')"
  by (simp add: parse_books_def generator_next_def Let_def)

section \<open>The extractor\<close>

text \<open>The loops, by what each step appends.\<close>

lemma highlights_loop_acc:
  "highlights_loop t a hs acc =
     (case highlights_loop t a hs [] of Inl e \<Rightarrow> Inl e | Inr ds \<Rightarrow> Inr (acc @ ds))"
proof (induction hs arbitrary: acc)
  case Nil
  show ?case by simp
next
  case (Cons h hs)
  show ?case
  proof (cases "highlight_dict t a h")
    case (Inl e)
    then show ?thesis by simp
  next
    case (Inr d)
    have "highlights_loop t a (h # hs) acc = highlights_loop t a hs (acc @ [d])"
      using Inr by simp
    also have "\<dots> = (case highlights_loop t a hs [] of Inl e \<Rightarrow> Inl e | Inr ds \<Rightarrow> Inr ((acc @ [d]) @ ds))"
      by (rule Cons.IH)
    finally show ?thesis
      using Inr Cons.IH [of "[d]"] by (simp split: sum.splits)
  qed
qed

lemma book_step_acc:
  "book_step b acc = (case book_step b [] of Inl e \<Rightarrow> Inl e | Inr ds \<Rightarrow> Inr (acc @ ds))"
proof (cases "title_of b")
  case (Inl e)
  then show ?thesis by (simp add: book_step_def)
next
  case t: (Inr t)
  show ?thesis
  proof (cases "author_of b")
    case (Inl e)
    with t show ?thesis by (simp add: book_step_def)
  next
    case (Inr a)
    with t highlights_loop_acc [of t a "find_all b ''span'' ''highlight''" acc]
    show ?thesis by (simp add: book_step_def)
  qed
qed

lemma books_loop_acc:
  "books_loop bs acc =
     (case books_loop bs [] of Inl e \<Rightarrow> Inl e | Inr ds \<Rightarrow> Inr (acc @ ds))"
proof (induction bs arbitrary: acc)
  case Nil
  show ?case by simp
next
  case (Cons b bs)
  obtain book sib where b: "b = (book, sib)" by (cases b)
  show ?case
  proof (cases "book_step book []")
    case (Inl e)
    then show ?thesis using b book_step_acc [of book acc] by simp
  next
    case (Inr d)
    then have 1: "book_step book acc = Inr (acc @ d)"
      using book_step_acc [of book acc] by simp
    show ?thesis
      using b Inr 1 Cons.IH [of "acc @ d"] Cons.IH [of d] by (simp split: sum.splits)
  qed
qed

lemma books_loop_Cons:
  "books_loop ((book, sib) # bs) [] =
     (case book_step book [] of
        Inl e \<Rightarrow> Inl e
      | Inr ds \<Rightarrow> (case books_loop bs [] of Inl e \<Rightarrow> Inl e | Inr ds' \<Rightarrow> Inr (ds @ ds')))"
proof (cases "book_step book []")
  case (Inl e)
  then show ?thesis by simp
next
  case (Inr d)
  then have "books_loop ((book, sib) # bs) [] = books_loop bs d" by simp
  also have "\<dots> = (case books_loop bs [] of Inl e \<Rightarrow> Inl e | Inr ds' \<Rightarrow> Inr (d @ ds'))"
    by (rule books_loop_acc)
  finally show ?thesis using Inr by simp
qed

lemma books_loop_fail:
  "book_step book [] = Inl e \<Longrightarrow> \<exists>e'. books_loop (pre @ (book, sib) # post) [] = Inl e'"
proof (induction pre)
  case Nil
  then show ?case by (simp add: books_loop_Cons)
next
  case (Cons b pre)
  obtain b' s' where b: "b = (b', s')" by (cases b)
  from Cons obtain e' where "books_loop (pre @ (book, sib) # post) [] = Inl e'" by blast
  then show ?case
    unfolding b append_Cons books_loop_Cons by (cases "book_step b' []") auto
qed

lemma books_loop_fail_first:
  assumes "\<forall>b \<in> set pre. \<exists>ds. book_step (fst b) [] = Inr ds" and "book_step book [] = Inl e"
  shows "books_loop (pre @ (book, sib) # post) [] = Inl e"
  using assms
proof (induction pre)
  case Nil
  then show ?case by (simp add: books_loop_Cons)
next
  case (Cons b pre)
  obtain b' s' where b: "b = (b', s')" by (cases b)
  from Cons.prems b obtain ds where ds: "book_step b' [] = Inr ds" by auto
  from Cons have "books_loop (pre @ (book, sib) # post) [] = Inl e" by simp
  with ds show ?case
    unfolding b append_Cons books_loop_Cons by simp
qed

lemma book_step_no_title:
  "find_tag book ''span'' ''title'' = None \<Longrightarrow>
   book_step book [] = Inl (AttributeError ''NoneType'' ''string'')"
  by (simp add: book_step_def title_of_def)

lemma book_step_no_author:
  "find_tag book ''span'' ''author'' = None \<Longrightarrow>
   \<exists>e. book_step book [] = Inl e"
  by (cases "title_of book") (simp_all add: book_step_def author_of_def)

lemma book_step_no_author_titled:
  "find_tag book ''span'' ''author'' = None \<Longrightarrow> title_of book = Inr t \<Longrightarrow>
   book_step book [] = Inl (AttributeError ''NoneType'' ''string'')"
  by (simp add: book_step_def author_of_def)





text \<open>
  Claim C3, as amended. When some book element of the document has no title element or
  no author element, the extraction raises an exception and returns no dictionary at
  all. When every book before it goes through, and the book has no title element (or
  has a title text and no author element), the exception is the \<open>AttributeError\<close> of
  \<open>None.string\<close>. The exception names no book.
\<close>

theorem extract_fails_without_title_or_author:
  assumes books: "find_all soup ''div'' ''bookMain'' = pre @ (book, sib) # post"
    and missing: "find_tag book ''span'' ''title'' = None \<or> find_tag book ''span'' ''author'' = None"
  shows "(\<exists>e. extract_soup soup = Inl e) \<and>
         ((\<forall>b \<in> set pre. \<exists>ds. book_step (fst b) [] = Inr ds) \<and>
          (find_tag book ''span'' ''title'' = None \<or> (\<exists>t. title_of book = Inr t))
          \<longrightarrow> extract_soup soup = Inl (AttributeError ''NoneType'' ''string''))"
proof
  from missing obtain e where "book_step book [] = Inl e"
    using book_step_no_title book_step_no_author by blast
  then show "\<exists>e. extract_soup soup = Inl e"
    unfolding extract_soup_def books by (rule books_loop_fail)
next
  show "(\<forall>b \<in> set pre. \<exists>ds. book_step (fst b) [] = Inr ds) \<and>
        (find_tag book ''span'' ''title'' = None \<or> (\<exists>t. title_of book = Inr t))
        \<longrightarrow> extract_soup soup = Inl (AttributeError ''NoneType'' ''string'')"
  proof
    assume a: "(\<forall>b \<in> set pre. \<exists>ds. book_step (fst b) [] = Inr ds) \<and>
        (find_tag book ''span'' ''title'' = None \<or> (\<exists>t. title_of book = Inr t))"
    have "book_step book [] = Inl (AttributeError ''NoneType'' ''string'')"
    proof (cases "find_tag book ''span'' ''title'' = None")
      case True
      then show ?thesis by (rule book_step_no_title)
    next
      case False
      with a missing obtain t where "title_of book = Inr t"
        and "find_tag book ''span'' ''author'' = None" by blast
      then show ?thesis using book_step_no_author_titled by blast
    qed
    with a show "extract_soup soup = Inl (AttributeError ''NoneType'' ''string'')"
      unfolding extract_soup_def books by (simp add: books_loop_fail_first)
  qed
qed

theorem extract_fails_without_title_or_author_witness:
  "extract_soup untitled_first = Inl (AttributeError ''NoneType'' ''string'')"
proof -
  have books: "find_all untitled_first ''div'' ''bookMain'' = [] @ (untitled, Some dune) # [(dune, None)]"
    by code_simp
  have no_title: "find_tag untitled ''span'' ''title'' = None"
    by code_simp
  then have missing:
    "find_tag untitled ''span'' ''title'' = None \<or> find_tag untitled ''span'' ''author'' = None"
    by simp
  from extract_fails_without_title_or_author [OF books missing] no_title
  show ?thesis by simp
qed

text \<open>
  The book without a title is the first book of one document and the second of
  another, after a book that has no highlight: the exception is the same value in both
  runs, so it does not tell the position of the book. After a book that has a highlight
  the run does not get as far as the book without a title.
\<close>

theorem extract_error_position_counterexample:
  "extract_soup untitled_first = Inl (AttributeError ''NoneType'' ''string'')
   \<and> extract_soup untitled_second = Inl (AttributeError ''NoneType'' ''string'')
   \<and> map fst (find_all untitled_first ''div'' ''bookMain'') = [untitled, dune]
   \<and> map fst (find_all untitled_second ''div'' ''bookMain'') = [ulysses, untitled]
   \<and> extract_soup untitled_after_dune = Inl (TypeError ''module'')"
  by code_simp

text \<open>
  Claim C7. A document with the books Dune, of the highlights \<open>h1\<close> and \<open>h2\<close>, and
  Emma, of the highlight \<open>h3\<close>: the extractor does not return the three dictionaries.
  It raises \<open>TypeError\<close> at the first highlight, where the identifier is derived.
\<close>

theorem two_books_no_output:
  "extract_soup two_books = Inl (TypeError ''module'')
   \<and> map fst (find_all two_books ''div'' ''bookMain'') = [dune, emma]
   \<and> map (tag_string \<circ> fst) (find_all dune ''span'' ''highlight'') = [Some ''h1'', Some ''h2'']
   \<and> map (tag_string \<circ> fst) (find_all emma ''span'' ''highlight'') = [Some ''h3'']"
  by code_simp

text \<open>
  Claim C8. A book with a highlight that has no text node and a highlight of one blank,
  each followed by its link: the extraction fails. The texts are read without an error
  (\<open>None\<close> and the blank), the failure is the \<open>TypeError\<close> of the identifier.
\<close>

theorem blank_highlights_fail:
  "extract_soup blank_highlights = Inl (TypeError ''module'')
   \<and> map (tag_string \<circ> fst) (find_all blank_highlights ''span'' ''highlight'')
       = [None, Some '' '']"
  by code_simp


text \<open>The author text of the specification's example.\<close>

lemma author_text_example: "author_text ''by  Jane Doe '' = ''Jane Doe''"
  by (simp add: author_text_def str_strip_def isspace_def)

text \<open>
  Claim C9. The author's name is meant to lose its leading \<open>by\<close> only, but
  \<open>replace('by', '')\<close> deletes every \<open>by\<close> of the text: the author text
  \<open>by Abby Smith\<close> becomes \<open>Ab Smith\<close>, not \<open>Abby Smith\<close>.
\<close>

theorem author_text_inner_by: "author_text ''by Abby Smith'' = ''Ab Smith''"
  by (simp add: author_text_def str_strip_def isspace_def)

end
